theory Spec2Isabelle
  imports Main "HOL-Library.AList"
begin

unbundle bit_operations_syntax

section \<open>Python values, names and dictionaries\<close>

text \<open>
  The sources are dynamically typed. A name (attribute name, column name, relation name
  of a link, class name) is a Python value that is either \<^verbatim>\<open>None\<close> or a string, so it is
  modelled as \<open>string option\<close>. A dictionary is an association list with distinct keys:
  storing under a key that is present replaces its value in place, storing under a new
  key appends it (\<open>AList.update\<close>), so the list keeps the keys in the order in which they
  were first stored. That is not the order in which the dictionary iterates: the
  interpreter decides it (Python 2, the language of the sources, by the hash values of the
  keys), see \<open>dict_values\<close>.
\<close>

type_synonym pyname = "string option"

datatype pyval =
    PNone
  | PBool bool
  | PInt int
  | PStr string
  | PObj "(string option \<times> pyval) list"
    \<comment> \<open>a reference to an application object, given by that object's instance dictionary\<close>
  | POther string
    \<comment> \<open>any other object (a class, a method, a dictionary); it has no \<^verbatim>\<open>__key__\<close>\<close>

type_synonym pobj = "(pyname \<times> pyval) list"

datatype exn =
    AttributeError
  | AssertionError
  | NameError
  | TypeError
  | KeyError
  | IndexError
  | ColumnMappingError
  | DriverError string
    \<comment> \<open>whatever the DB API module raises\<close>
  | ConnectionError
    \<comment> \<open>named by the specification only; nothing in the sources raises it\<close>
  | AssociationError
    \<comment> \<open>named by the specification only; nothing in the sources raises it\<close>

definition dict_get :: "('k \<times> 'v) list \<Rightarrow> 'k \<Rightarrow> exn + 'v" where
  \<comment> \<open>\<^verbatim>\<open>d[k]\<close>\<close>
  "dict_get d k = (case map_of d k of None \<Rightarrow> Inl KeyError | Some v \<Rightarrow> Inr v)"

definition dict_update :: "('k \<times> 'v) list \<Rightarrow> ('k \<times> 'v) list \<Rightarrow> ('k \<times> 'v) list" where
  \<comment> \<open>\<^verbatim>\<open>d.update(e)\<close>: the entries of \<open>e\<close> are stored one by one, here in the order of
      the list \<open>e\<close>; as the keys of \<open>e\<close> are distinct, the contents of the result are
      the same in whatever order \<open>e\<close> iterates\<close>
  "dict_update d e = fold (\<lambda>kv acc. AList.update (fst kv) (snd kv) acc) e d"

text \<open>
  \<^verbatim>\<open>d.values()\<close> lists the values in the order in which \<open>d\<close> iterates. The order is a
  parameter: \<open>pos d k\<close> is the place that the interpreter gives the key \<open>k\<close> in the
  dictionary \<open>d\<close> (in CPython 2 the slot of the key in the hash table), and the entries
  are listed by ascending place. Every order of the entries arises from some \<open>pos\<close>, and
  a constant \<open>pos\<close> gives the order of storing.
\<close>

definition dict_values :: "(('k \<times> 'v) list \<Rightarrow> 'k \<Rightarrow> nat) \<Rightarrow> ('k \<times> 'v) list \<Rightarrow> 'v list" where
  "dict_values pos d = map snd (sort_key (\<lambda>kv. pos d (fst kv)) d)"

definition py_str :: "pyname \<Rightarrow> string" where
  \<comment> \<open>what \<^verbatim>\<open>'%s' % x\<close> prints for a name\<close>
  "py_str x = (case x of None \<Rightarrow> ''None'' | Some s \<Rightarrow> s)"

definition dq :: string where
  "dq = [CHR 0x22]"

definition sq :: string where
  "sq = [CHR 0x27]"

fun join :: "string \<Rightarrow> string list \<Rightarrow> string" where
  "join sep [] = []"
| "join sep [x] = x"
| "join sep (x # y # ys) = x @ sep @ join sep (y # ys)"

section \<open>conf.py: column descriptors\<close>

datatype cache_kind = FullObject | FullAssociation

text \<open>
  The association object of a column comes from \<^verbatim>\<open>bazaar.assoc\<close>, which is not among
  the sources. The code of \<^verbatim>\<open>motor.py\<close> uses it as a dictionary key (by identity) and reads
  \<^verbatim>\<open>association.col.vcls\<close>; these two are what the record keeps.
\<close>

record Association =
  asc_id :: nat
  asc_col_vcls :: pyname

record Column =
  attr :: pyname
  col :: pyname
  vcls :: pyname
  link :: pyname
  vcol :: pyname
  vattr :: pyname
  association :: "Association option"
  update :: bool
  cache :: "cache_kind option"

definition Column_init :: "pyname \<Rightarrow> pyname \<Rightarrow> Column" where
  "Column_init a c =
     \<lparr> attr = a,
       col = (if c = None then a else c),
       vcls = None, link = None, vcol = None, vattr = None,
       association = None,
       update = True,
       cache = None \<rparr>"

definition is_one_to_one :: "Column \<Rightarrow> bool" where
  "is_one_to_one c = (vcls c \<noteq> None \<and> link c = None \<and> vcol c = None)"

definition is_one_to_many :: "Column \<Rightarrow> bool" where
  "is_one_to_many c = (vcls c \<noteq> None \<and> link c = None \<and> vcol c \<noteq> None \<and> vattr c \<noteq> None)"

definition is_many_to_many :: "Column \<Rightarrow> bool" where
  "is_many_to_many c = (vcls c \<noteq> None \<and> col c \<noteq> None \<and> link c \<noteq> None \<and> vcol c \<noteq> None)"


definition is_many :: "Column \<Rightarrow> bool" where
  "is_many c = (is_one_to_many c \<or> is_many_to_many c)"

definition is_unclassified :: "Column \<Rightarrow> bool" where
  \<comment> \<open>the classification "none": no association predicate holds\<close>
  "is_unclassified c = (\<not> (is_one_to_one c \<or> is_one_to_many c \<or> is_many_to_many c))"

definition classifications :: "Column \<Rightarrow> bool list" where
  "classifications c = [is_unclassified c, is_one_to_one c, is_one_to_many c, is_many_to_many c]"

section \<open>conf.py: application classes\<close>

text \<open>
  What \<^verbatim>\<open>Persistence.__new__\<close> stores in a class: relation, sequencer, the class's own
  \<open>columns\<close> and \<open>defaults\<close> dictionaries. \<open>cls_update\<close> is the class attribute
  \<^verbatim>\<open>update\<close>, absent (\<open>None\<close>) until \<^verbatim>\<open>addColumn\<close> assigns it. A class is either a
  plain Python class or an instance of the metaclass together with its bases.
\<close>

record Persistence =
  cname :: string
  relation :: string
  sequencer :: string
  columns :: "(pyname \<times> Column) list"
  defaults :: "(pyname \<times> pyval) list"
  cls_update :: "bool option"

datatype pclass =
    PlainClass string
  | PersistentClass Persistence "pclass list"

definition py_not :: "pyname \<Rightarrow> bool" where
  \<comment> \<open>\<^verbatim>\<open>not x\<close> for a name: \<^verbatim>\<open>None\<close> and the empty string are false values\<close>
  "py_not x = (x = None \<or> x = Some [])"

definition dict_has :: "('k \<times> 'v) list \<Rightarrow> 'k \<Rightarrow> bool" where
  \<comment> \<open>\<^verbatim>\<open>k in d\<close>\<close>
  "dict_has d k = (map_of d k \<noteq> None)"

text \<open>
  \<^verbatim>\<open>addColumn\<close> mutates the class before it validates, so the model returns the class
  as it is left behind together with the outcome. The name \<^verbatim>\<open>ColumnMappingError\<close> of the
  first \<^verbatim>\<open>raise\<close> is not bound in \<^verbatim>\<open>conf.py\<close> (only \<^verbatim>\<open>bazaar.exc\<close> is imported), so
  evaluating it raises \<^verbatim>\<open>NameError\<close>. The assignment \<^verbatim>\<open>self.update = update\<close> goes to the
  class, as written.
\<close>

definition addColumn ::
  "Persistence \<Rightarrow> pyname \<Rightarrow> pyname \<Rightarrow> pyname \<Rightarrow> pyname \<Rightarrow> pyname \<Rightarrow> pyname \<Rightarrow> bool
     \<Rightarrow> (exn + unit) \<times> Persistence" where
  "addColumn self a c vc l vco va upd =
     (let col0 = (Column_init a c)\<lparr>vcls := vc, link := l, vcol := vco, vattr := va\<rparr>;
          self1 = self\<lparr>cls_update := Some upd\<rparr>;
          col1 = col0\<lparr>cache := None\<rparr>;
          self2 = self1\<lparr>defaults := AList.update a PNone (defaults self1)\<rparr>;
          self3 = (if is_one_to_one col1 \<and> attr col1 \<noteq> col col1
                   then self2\<lparr>defaults := AList.update (col col1) PNone (defaults self2)\<rparr>
                   else self2);
          col2 = (if is_many col1 then col1\<lparr>cache := Some FullAssociation\<rparr> else col1)
      in if py_not a then (Inl NameError, self3)
         else if dict_has (columns self3) a then (Inl ColumnMappingError, self3)
         else (Inr (), self3\<lparr>columns := AList.update (attr col2) col2 (columns self3)\<rparr>))"

fun getColumns :: "pclass \<Rightarrow> (pyname \<times> Column) list" where
  "getColumns (PersistentClass self bases) =
     dict_update
       (fold (\<lambda>cls cols.
                (case cls of
                   PersistentClass _ _ \<Rightarrow> dict_update cols (getColumns cls)
                 | PlainClass _ \<Rightarrow> cols))
             bases [])
       (columns self)"
| "getColumns (PlainClass n) = []"
  \<comment> \<open>never called: the method belongs to the metaclass, and the loop skips plain classes\<close>

fun hierarchy :: "pclass \<Rightarrow> Persistence list" where
  \<comment> \<open>the class and all its transitive Persistence bases\<close>
  "hierarchy (PersistentClass self bases) = self # concat (map hierarchy bases)"
| "hierarchy (PlainClass n) = []"

section \<open>motor.py: the database access object\<close>

text \<open>
  The Python DB API module, its connections and cursors are outside the sources, so the
  module is a parameter: \<open>db_connect\<close> opens a connection, \<open>db_execute\<close> stands for
  \<^verbatim>\<open>cursor().execute(query, params)\<close> and gives the rows the cursor can fetch or the
  exception raised, with the connection as it is afterwards, and \<open>db_executemany\<close> stands
  for \<^verbatim>\<open>cursor().executemany\<close>. Log output is not modelled.
\<close>

type_synonym row = "pyval list"

datatype params =
    NoParams
  | Named "(pyname \<times> pyval) list"
  | Positional "pyval list"

record 'db db_api =
  db_connect :: "string \<Rightarrow> exn + 'db"
  db_execute :: "'db \<Rightarrow> string \<Rightarrow> params \<Rightarrow> (exn + row list) \<times> 'db"
  db_executemany :: "'db \<Rightarrow> string \<Rightarrow> row list \<Rightarrow> (exn + unit) \<times> 'db"

record 'db Motor =
  db_module :: "'db db_api"
  db_conn :: "'db option"

definition Motor_init :: "'db db_api \<Rightarrow> 'db Motor" where
  "Motor_init dbm = \<lparr> db_module = dbm, db_conn = None \<rparr>"

definition connectDB :: "'db Motor \<Rightarrow> string \<Rightarrow> (exn + unit) \<times> 'db Motor" where
  "connectDB m dsn =
     (case db_connect (db_module m) dsn of
        Inl e \<Rightarrow> (Inl e, m)
      | Inr db \<Rightarrow> (Inr (), m\<lparr>db_conn := Some db\<rparr>))"

definition cursor_execute ::
  "'db Motor \<Rightarrow> string \<Rightarrow> params \<Rightarrow> (exn + row list) \<times> 'db Motor" where
  \<comment> \<open>\<^verbatim>\<open>dbc = self.db_conn.cursor(); dbc.execute(query, params)\<close>: the attribute access
      on an unset connection raises \<^verbatim>\<open>AttributeError\<close>\<close>
  "cursor_execute m query ps =
     (case db_conn m of
        None \<Rightarrow> (Inl AttributeError, m)
      | Some db \<Rightarrow>
          (case db_execute (db_module m) db query ps of
             (r, db') \<Rightarrow> (r, m\<lparr>db_conn := Some db'\<rparr>)))"

definition Motor_add ::
  "'db Motor \<Rightarrow> string \<Rightarrow> (pyname \<times> pyval) list \<Rightarrow> (exn + unit) \<times> 'db Motor" where
  "Motor_add m query data =
     (case cursor_execute m query (Named data) of
        (Inl e, m') \<Rightarrow> (Inl e, m')
      | (Inr rows, m') \<Rightarrow> (Inr (), m'))"

definition Motor_update ::
  "'db Motor \<Rightarrow> string \<Rightarrow> pyval list \<Rightarrow> pyval \<Rightarrow> (exn + unit) \<times> 'db Motor" where
  "Motor_update m query data key =
     (case cursor_execute m query (Positional (data @ [key])) of
        (Inl e, m') \<Rightarrow> (Inl e, m')
      | (Inr rows, m') \<Rightarrow> (Inr (), m'))"

definition Motor_delete ::
  "'db Motor \<Rightarrow> string \<Rightarrow> pyval \<Rightarrow> (exn + unit) \<times> 'db Motor" where
  "Motor_delete m query key =
     (case cursor_execute m query (Positional [key]) of
        (Inl e, m') \<Rightarrow> (Inl e, m')
      | (Inr rows, m') \<Rightarrow> (Inr (), m'))"

definition Motor_executeMany ::
  "'db Motor \<Rightarrow> string \<Rightarrow> row list \<Rightarrow> (exn + unit) \<times> 'db Motor" where
  "Motor_executeMany m query pairs =
     (case db_conn m of
        None \<Rightarrow> (Inl AttributeError, m)
      | Some db \<Rightarrow>
          (case db_executemany (db_module m) db query pairs of
             (r, db') \<Rightarrow> (r, m\<lparr>db_conn := Some db'\<rparr>)))"

definition Motor_getKey :: "'db Motor \<Rightarrow> string \<Rightarrow> (exn + pyval) \<times> 'db Motor" where
  \<comment> \<open>\<^verbatim>\<open>dbc.fetchone()[0]\<close>: \<^verbatim>\<open>fetchone()\<close> gives \<^verbatim>\<open>None\<close> when there is no row, and
      subscripting \<^verbatim>\<open>None\<close> raises \<^verbatim>\<open>TypeError\<close>\<close>
  "Motor_getKey m query =
     (case cursor_execute m query NoParams of
        (Inl e, m') \<Rightarrow> (Inl e, m')
      | (Inr rows, m') \<Rightarrow>
          (case rows of
             [] \<Rightarrow> (Inl TypeError, m')
           | r # _ \<Rightarrow>
               (case r of
                  [] \<Rightarrow> (Inl IndexError, m')
                | k # _ \<Rightarrow> (Inr k, m'))))"

text \<open>
  \<^verbatim>\<open>Motor.getData\<close> is a generator function: the call runs none of its body and returns
  a generator; the body runs when rows are requested. \<open>GenFresh\<close> is the generator before
  its first row is requested, \<open>GenOpen\<close> holds the rows the cursor still has. A request
  answers \<open>Inr (Some row)\<close>, or \<open>Inr None\<close> when the generator is exhausted.
\<close>

datatype getData_gen =
    GenFresh string
  | GenOpen "row list"
  | GenDone

definition Motor_getData :: "'db Motor \<Rightarrow> string \<Rightarrow> pyname list \<Rightarrow> getData_gen" where
  "Motor_getData m query cols = GenFresh query"

definition fetch_row :: "row list \<Rightarrow> row option \<times> getData_gen" where
  \<comment> \<open>\<^verbatim>\<open>row = dbc.fetchone()\<close> and the test \<^verbatim>\<open>while row\<close>: an empty row ends the loop too\<close>
  "fetch_row rows =
     (case rows of
        [] \<Rightarrow> (None, GenDone)
      | r # rs \<Rightarrow> (if r = [] then (None, GenDone) else (Some r, GenOpen rs)))"

definition Motor_getData_next ::
  "'db Motor \<Rightarrow> getData_gen \<Rightarrow> (exn + row option) \<times> getData_gen \<times> 'db Motor" where
  "Motor_getData_next m g =
     (case g of
        GenFresh query \<Rightarrow>
          (case cursor_execute m query NoParams of
             (Inl e, m') \<Rightarrow> (Inl e, GenDone, m')
           | (Inr rows, m') \<Rightarrow> (Inr (fst (fetch_row rows)), snd (fetch_row rows), m'))
      | GenOpen rows \<Rightarrow> (Inr (fst (fetch_row rows)), snd (fetch_row rows), m)
      | GenDone \<Rightarrow> (Inr None, GenDone, m))"

section \<open>motor.py: the convertor\<close>

record asc_queries =
  q_addPair :: string
  q_delPair :: string
  q_getPair :: string

text \<open>
  The dictionary \<^verbatim>\<open>queries\<close> is keyed by the convertor's own methods and by association
  objects; the entries under the methods are the fields \<open>q_getObjects\<close> to \<open>q_getKey\<close>, the
  entries under association objects are \<open>q_asc\<close>, keyed by \<open>asc_id\<close>. \<open>cv_columns\<close> is
  \<^verbatim>\<open>self.columns\<close>.
\<close>

record Convertor =
  cv_cls :: Persistence
  cv_columns :: "pyname list"
  oto_ascs :: "Column list"
  mtm_ascs :: "Column list"
  q_getObjects :: string
  q_add :: string
  q_update :: string
  q_delete :: string
  q_getKey :: string
  asc_cols :: "(nat \<times> pyname \<times> pyname) list"
  q_asc :: "(nat \<times> asc_queries) list"

definition quoted :: "pyname \<Rightarrow> string" where
  \<comment> \<open>\<^verbatim>\<open>'"%s"' % col\<close>\<close>
  "quoted c = dq @ py_str c @ dq"

definition select_query :: "pyname list \<Rightarrow> string \<Rightarrow> string" where
  "select_query cols rel =
     ''select '' @ dq @ ''__key__'' @ dq @ '', '' @ join '', '' (map quoted cols)
       @ '' from '' @ dq @ rel @ dq"

definition insert_query :: "pyname list \<Rightarrow> string \<Rightarrow> string" where
  "insert_query cols rel =
     ''insert into '' @ dq @ rel @ dq @ '' (__key__, '' @ join '', '' (map quoted cols)
       @ '') values (%(__key__)s, '' @ join '', '' (map (\<lambda>c. ''%('' @ py_str c @ '')s'') cols)
       @ '')''"

definition update_query :: "pyname list \<Rightarrow> string \<Rightarrow> string" where
  "update_query cols rel =
     ''update '' @ dq @ rel @ dq @ '' set '' @ join '', '' (map (\<lambda>c. quoted c @ '' = %s'') cols)
       @ '' where __key__ = %s''"

definition delete_query :: "string \<Rightarrow> string" where
  "delete_query rel = ''delete from '' @ dq @ rel @ dq @ '' where __key__ = %s''"

definition getKey_query :: "string \<Rightarrow> string" where
  "getKey_query seq = ''select nextval('' @ sq @ seq @ sq @ '')''"

definition pair_queries :: "pyname \<Rightarrow> pyname \<times> pyname \<Rightarrow> asc_queries" where
  "pair_queries rel cs =
     \<lparr> q_addPair = ''insert into '' @ dq @ py_str rel @ dq @ '' ('' @
          join '', '' (map quoted [fst cs, snd cs]) @ '') values('' @
          join '', '' (replicate (length [fst cs, snd cs]) ''%s'') @ '')'',
       q_delPair = ''delete from '' @ dq @ py_str rel @ dq @ '' where '' @
          join '' and '' (map (\<lambda>c. quoted c @ '' = %s'') [fst cs, snd cs]),
       q_getPair = ''select '' @ join '', '' (map quoted [fst cs, snd cs]) @
          '' from '' @ dq @ py_str rel @ dq \<rparr>"

fun mtm_loop ::
  "Column list \<Rightarrow> (nat \<times> pyname \<times> pyname) list \<times> (nat \<times> asc_queries) list
     \<Rightarrow> exn + (nat \<times> pyname \<times> pyname) list \<times> (nat \<times> asc_queries) list" where
  \<comment> \<open>the loop over \<^verbatim>\<open>self.mtm_ascs\<close>; reading \<^verbatim>\<open>col.association.col\<close> on an unset
      association raises \<^verbatim>\<open>AttributeError\<close>\<close>
  "mtm_loop [] acc = Inr acc"
| "mtm_loop (c # cs) (acs, qs) =
     (case association c of
        None \<Rightarrow> Inl AttributeError
      | Some asc \<Rightarrow>
          (if asc_col_vcls asc \<noteq> vcls c then Inl AssertionError
           else mtm_loop cs
                  (AList.update (asc_id asc) (col c, vcol c) acs,
                   AList.update (asc_id asc) (pair_queries (link c) (col c, vcol c)) qs)))"

definition Convertor_init ::
  "((pyname \<times> Column) list \<Rightarrow> pyname \<Rightarrow> nat) \<Rightarrow> Persistence \<Rightarrow> exn + Convertor" where
  \<comment> \<open>\<open>pos\<close> is the iteration order of dictionaries, see \<open>dict_values\<close>\<close>
  "Convertor_init pos cls =
     (let cls_columns = dict_values pos (columns cls);
          cols0 = map col (filter (\<lambda>c. association c = None) cls_columns);
          otos = filter is_one_to_one cls_columns;
          cols = cols0 @ map col otos;
          mtms = filter is_many_to_many cls_columns
      in (case mtm_loop mtms ([], []) of
            Inl e \<Rightarrow> Inl e
          | Inr (acs, qs) \<Rightarrow>
              Inr \<lparr> cv_cls = cls,
                    cv_columns = cols,
                    oto_ascs = otos,
                    mtm_ascs = mtms,
                    q_getObjects = select_query cols (relation cls),
                    q_add = insert_query cols (relation cls),
                    q_update = update_query cols (relation cls),
                    q_delete = delete_query (relation cls),
                    q_getKey = getKey_query (sequencer cls),
                    asc_cols = acs,
                    q_asc = qs \<rparr>))"

text \<open>
  An application object is its instance dictionary. \<^verbatim>\<open>getattr(obj, name)\<close> finds the
  instance dictionary first and then the attributes of the class of \<open>obj\<close> and of its
  bases. Of these, \<^verbatim>\<open>__key__\<close> is set to \<^verbatim>\<open>None\<close> by \<^verbatim>\<open>Persistence.__new__\<close>; the others
  (\<^verbatim>\<open>relation\<close>, \<^verbatim>\<open>__doc__\<close>, what \<^verbatim>\<open>bazaar.core.PersistentObject\<close> defines, ...) are the
  parameter \<open>cattr\<close>, which gives the value found under a name, if any. An attribute name
  that is not a string raises \<^verbatim>\<open>TypeError\<close>.
\<close>

definition py_getattr :: "(string \<Rightarrow> pyval option) \<Rightarrow> pobj \<Rightarrow> pyname \<Rightarrow> exn + pyval" where
  "py_getattr cattr obj name =
     (case name of
        None \<Rightarrow> Inl TypeError
      | Some n \<Rightarrow>
          (case map_of obj (Some n) of
             Some v \<Rightarrow> Inr v
           | None \<Rightarrow>
               (if n = ''__key__'' then Inr PNone
                else (case cattr n of Some v \<Rightarrow> Inr v | None \<Rightarrow> Inl AttributeError))))"

definition obj_key :: "pobj \<Rightarrow> pyval" where
  \<comment> \<open>\<^verbatim>\<open>obj.__key__\<close>: the instance's value, else the \<^verbatim>\<open>None\<close> of the class\<close>
  "obj_key obj = (case map_of obj (Some ''__key__'') of Some v \<Rightarrow> v | None \<Rightarrow> PNone)"

definition value_key :: "pyval \<Rightarrow> exn + pyval" where
  \<comment> \<open>\<^verbatim>\<open>value.__key__\<close>\<close>
  "value_key v = (case v of PObj d \<Rightarrow> Inr (obj_key d) | _ \<Rightarrow> Inl AttributeError)"

fun getData_loop ::
  "(string \<Rightarrow> pyval option) \<Rightarrow> Column list \<Rightarrow> pobj \<Rightarrow> (pyname \<times> pyval) list
     \<Rightarrow> exn + (pyname \<times> pyval) list" where
  "getData_loop cattr [] obj data = Inr data"
| "getData_loop cattr (c # cs) obj data =
     (case py_getattr cattr obj (attr c) of
        Inl e \<Rightarrow> Inl e
      | Inr v \<Rightarrow>
          (if v = PNone then getData_loop cattr cs obj (AList.update (col c) PNone data)
           else (case value_key v of
                   Inl e \<Rightarrow> Inl e
                 | Inr k \<Rightarrow> getData_loop cattr cs obj (AList.update (col c) k data))))"

definition getData ::
  "(string \<Rightarrow> pyval option) \<Rightarrow> Convertor \<Rightarrow> pobj \<Rightarrow> exn + (pyname \<times> pyval) list" where
  \<comment> \<open>\<^verbatim>\<open>Convertor.getData\<close>; \<^verbatim>\<open>data\<close> starts as a copy of \<^verbatim>\<open>obj.__dict__\<close>\<close>
  "getData cattr cv obj = getData_loop cattr (oto_ascs cv) obj obj"

fun dict_gets :: "('k \<times> 'v) list \<Rightarrow> 'k list \<Rightarrow> exn + 'v list" where
  \<comment> \<open>\<^verbatim>\<open>[data[col] for col in cols]\<close>\<close>
  "dict_gets d [] = Inr []"
| "dict_gets d (k # ks) =
     (case dict_get d k of
        Inl e \<Rightarrow> Inl e
      | Inr v \<Rightarrow> (case dict_gets d ks of Inl e \<Rightarrow> Inl e | Inr vs \<Rightarrow> Inr (v # vs)))"

definition add ::
  "(string \<Rightarrow> pyval option) \<Rightarrow> Convertor \<Rightarrow> 'db Motor \<Rightarrow> pobj
     \<Rightarrow> (exn + unit) \<times> pobj \<times> 'db Motor" where
  \<comment> \<open>\<^verbatim>\<open>Convertor.add\<close>: the outcome, the object and the motor as they are left\<close>
  "add cattr cv m obj =
     (case getData cattr cv obj of
        Inl e \<Rightarrow> (Inl e, obj, m)
      | Inr data \<Rightarrow>
          (case Motor_getKey m (q_getKey cv) of
             (Inl e, m1) \<Rightarrow> (Inl e, obj, m1)
           | (Inr key, m1) \<Rightarrow>
               (case Motor_add m1 (q_add cv) (AList.update (Some ''__key__'') key data) of
                  (Inl e, m2) \<Rightarrow> (Inl e, obj, m2)
                | (Inr u, m2) \<Rightarrow> (Inr (), AList.update (Some ''__key__'') key obj, m2))))"

definition update_obj ::
  "(string \<Rightarrow> pyval option) \<Rightarrow> Convertor \<Rightarrow> 'db Motor \<Rightarrow> pobj
     \<Rightarrow> (exn + unit) \<times> 'db Motor" where
  \<comment> \<open>\<^verbatim>\<open>Convertor.update\<close>\<close>
  "update_obj cattr cv m obj =
     (case getData cattr cv obj of
        Inl e \<Rightarrow> (Inl e, m)
      | Inr data \<Rightarrow>
          (case dict_gets data (cv_columns cv) of
             Inl e \<Rightarrow> (Inl e, m)
           | Inr vals \<Rightarrow> Motor_update m (q_update cv) vals (obj_key obj)))"

definition delete_obj ::
  "Convertor \<Rightarrow> 'db Motor \<Rightarrow> pobj \<Rightarrow> (exn + unit) \<times> 'db Motor" where
  \<comment> \<open>\<^verbatim>\<open>Convertor.delete\<close>\<close>
  "delete_obj cv m obj = Motor_delete m (q_delete cv) (obj_key obj)"

subsection \<open>The iteration order of CPython 2, for small dictionaries\<close>

text \<open>
  The hash of a string in CPython 2 (\<^verbatim>\<open>string_hash\<close>), on a 32-bit \<^verbatim>\<open>long\<close>, read as an
  unsigned number; the low 32 bits are the same on a 64-bit \<^verbatim>\<open>long\<close>. A dictionary of at most five keys is a table of
  eight slots; a key whose slot \<^verbatim>\<open>hash & 7\<close> is free is stored there, and the dictionary
  iterates by ascending slot. So for string keys, at most five, with distinct slots,
  \<open>hash_pos\<close> is the place of a key in CPython 2. Collisions and larger tables are not
  modelled.
\<close>

definition py2_string_hash :: "string \<Rightarrow> int" where
  "py2_string_hash s =
     (case s of
        [] \<Rightarrow> 0
      | c # cs \<Rightarrow>
          (let x = fold (\<lambda>d x. ((1000003 * x) XOR of_char d) mod 2 ^ 32) s
                     ((of_char c * 2 ^ 7) mod 2 ^ 32);
               y = x XOR int (length s)
           in if y = 2 ^ 32 - 1 then 2 ^ 32 - 2 else y))"

definition hash_pos :: "(pyname \<times> 'v) list \<Rightarrow> pyname \<Rightarrow> nat" where
  "hash_pos d k = (case k of None \<Rightarrow> 0 | Some s \<Rightarrow> nat (py2_string_hash s mod 8))"


definition object_attrs :: "string \<Rightarrow> pyval option" where
  \<comment> \<open>attributes that every class has: \<^verbatim>\<open>__doc__\<close> is \<^verbatim>\<open>None\<close> where no docstring is given\<close>
  "object_attrs n = (if n = ''__doc__'' then Some PNone else None)"

subsection \<open>Classes used as concrete inputs\<close>

definition empty_class :: "string \<Rightarrow> Persistence" where
  \<comment> \<open>a class as \<^verbatim>\<open>Persistence(name)\<close> leaves it: relation and sequencer by default\<close>
  "empty_class n =
     \<lparr> cname = n, relation = n, sequencer = n @ ''_seq'', columns = [], defaults = [],
       cls_update = None \<rparr>"

definition plain_column :: "string \<Rightarrow> Column" where
  "plain_column a = Column_init (Some a) None"

definition with_association :: "nat \<Rightarrow> Column \<Rightarrow> Column" where
  \<comment> \<open>the column once an association object for it has been stored in it\<close>
  "with_association i c = c\<lparr>association := Some \<lparr>asc_id = i, asc_col_vcls = vcls c\<rparr>\<rparr>"

definition Order :: Persistence where
  \<comment> \<open>\<^verbatim>\<open>Order.addColumn('no'); Order.addColumn('finished')\<close>\<close>
  "Order =
     snd (addColumn
            (snd (addColumn (empty_class ''order'') (Some ''no'') None None None None None True))
            (Some ''finished'') None None None None None True)"



definition Department :: Persistence where
  \<comment> \<open>a plain column, a one-to-one column, a one-to-many column, a plain column and a
      many-to-many column, declared in this order, each association column with its
      association object\<close>
  "Department =
     (empty_class ''department'')
       \<lparr> columns :=
           [(Some ''name'', plain_column ''name''),
            (Some ''boss'',
               with_association 1
                 ((Column_init (Some ''boss'') (Some ''boss_fkey''))
                    \<lparr>vcls := Some ''Boss'', vattr := Some ''department''\<rparr>)),
            (Some ''employees'',
               with_association 2
                 ((Column_init (Some ''employees'') None)
                    \<lparr>vcls := Some ''Employee'', vcol := Some ''dep_fkey'',
                      vattr := Some ''department''\<rparr>)),
            (Some ''phone'', plain_column ''phone''),
            (Some ''projects'',
               with_association 3
                 ((Column_init (Some ''projects'') (Some ''department''))
                    \<lparr>vcls := Some ''Project'', link := Some ''department_projects'',
                      vcol := Some ''project''\<rparr>))] \<rparr>"







definition Order_cv :: Convertor where
  "Order_cv = projr (Convertor_init hash_pos Order)"

definition order_obj :: pobj where
  \<comment> \<open>an \<open>Order\<close> that has not been added: no \<^verbatim>\<open>__key__\<close> of its own\<close>
  "order_obj = [(Some ''no'', PInt 5), (Some ''finished'', PBool False)]"

definition Department_cv :: Convertor where
  "Department_cv = projr (Convertor_init hash_pos Department)"

definition department_obj :: pobj where
  "department_obj =
     [(Some ''name'', PStr ''sales''), (Some ''phone'', PStr ''555''),
      (Some ''boss'', PObj [(Some ''__key__'', PInt 7), (Some ''name'', PStr ''ann'')])]"

definition Invoice :: Persistence where
  \<comment> \<open>\<^verbatim>\<open>Invoice.addColumn('number', 'no')\<close>: a plain column whose relation column is not
      named as the attribute\<close>
  "Invoice =
     snd (addColumn (empty_class ''invoice'') (Some ''number'') (Some ''no'') None None None None
            True)"

definition Invoice_cv :: Convertor where
  "Invoice_cv = projr (Convertor_init hash_pos Invoice)"

definition invoice_obj :: pobj where
  "invoice_obj = [(Some ''number'', PInt 5)]"

definition log_db :: "string list \<Rightarrow> (string \<times> params) list db_api" where
  \<comment> \<open>a DB API module whose connection is the list of the statements executed so far;
      a statement whose text starts with one of \<open>refused\<close> raises, a \<^verbatim>\<open>nextval\<close> query
      fetches one row with a fresh number, any other statement fetches no row\<close>
  "log_db refused =
     \<lparr> db_connect = (\<lambda>dsn. Inr []),
       db_execute = (\<lambda>db q ps.
          (if list_ex (\<lambda>pre. take (length pre) q = pre) refused then Inl (DriverError q)
           else if take 14 q = ''select nextval'' then Inr [[PInt (int (length db) + 1)]]
           else Inr [],
           db @ [(q, ps)])),
       db_executemany = (\<lambda>db q rows. (Inr (), db @ map (\<lambda>r. (q, Positional r)) rows)) \<rparr>"

definition connected :: "'db db_api \<Rightarrow> 'db Motor" where
  "connected dbm = snd (connectDB (Motor_init dbm) ''dbname = ord'')"

definition Base :: Persistence where
  "Base =
     (empty_class ''base'')
       \<lparr> columns := [(Some ''name'', plain_column ''name''), (Some ''phone'', plain_column ''phone'')] \<rparr>"

definition Left :: Persistence where
  "Left = (empty_class ''left'') \<lparr> columns := [(Some ''salary'', plain_column ''salary'')] \<rparr>"

definition Right :: Persistence where
  \<comment> \<open>declares \<open>phone\<close> again, under another relation column\<close>
  "Right =
     (empty_class ''right'')
       \<lparr> columns := [(Some ''phone'', Column_init (Some ''phone'') (Some ''mobile''))] \<rparr>"

definition Bottom :: Persistence where
  \<comment> \<open>declares \<open>name\<close> again, under another relation column\<close>
  "Bottom =
     (empty_class ''bottom'')
       \<lparr> columns := [(Some ''name'', Column_init (Some ''name'') (Some ''full_name'')),
                      (Some ''room'', plain_column ''room'')] \<rparr>"

definition diamond :: pclass where
  \<comment> \<open>\<open>Bottom\<close> derives from \<open>Left\<close> and \<open>Right\<close>, both of which derive from \<open>Base\<close>\<close>
  "diamond =
     PersistentClass Bottom
       [PersistentClass Left [PersistentClass Base [PlainClass ''PersistentObject'']],
        PersistentClass Right [PersistentClass Base [PlainClass ''PersistentObject'']]]"

section \<open>Classification of descriptors\<close>

text \<open>
  C8. Whatever the fields of a descriptor hold, exactly one of the four classifications
  none, one-to-one, one-to-many, many-to-many holds: the three association predicates
  exclude each other pairwise, and a descriptor whose \<open>vcls\<close> is unset satisfies none of
  them.
\<close>

theorem classification_exclusive:
  "length (filter id (classifications c)) = 1
   \<and> \<not> (is_one_to_one c \<and> is_one_to_many c)
   \<and> \<not> (is_one_to_one c \<and> is_many_to_many c)
   \<and> \<not> (is_one_to_many c \<and> is_many_to_many c)
   \<and> (vcls c = None \<longrightarrow> \<not> is_one_to_one c \<and> \<not> is_one_to_many c \<and> \<not> is_many_to_many c)"
  by (auto simp: classifications_def is_unclassified_def is_one_to_one_def
      is_one_to_many_def is_many_to_many_def)

theorem classification_exclusive_witness:
  "vcls (Column_init (Some ''no'') None) = None
   \<and> \<not> is_one_to_one (Column_init (Some ''no'') None)
   \<and> \<not> is_one_to_many (Column_init (Some ''no'') None)
   \<and> \<not> is_many_to_many (Column_init (Some ''no'') None)
   \<and> length (filter id (classifications (Column_init (Some ''no'') None))) = 1"
  using classification_exclusive [of "Column_init (Some ''no'') None"]
  by (simp add: Column_init_def)

section \<open>Facts about dictionaries\<close>

lemma dict_update_keys: "fst ` set (dict_update d e) = fst ` set d \<union> fst ` set e"
  unfolding dict_update_def
  by (induction e arbitrary: d) (auto simp: dom_update)

lemma dict_update_distinct:
  "distinct (map fst d) \<Longrightarrow> distinct (map fst (dict_update d e))"
  unfolding dict_update_def
  by (induction e arbitrary: d) (auto simp: distinct_update)

lemma set_AList_update: "set (AList.update k v al) \<subseteq> insert (k, v) (set al)"
  by (induction al) auto

lemma dict_update_entries: "set (dict_update d e) \<subseteq> set d \<union> set e"
  unfolding dict_update_def
proof (induction e arbitrary: d)
  case Nil
  then show ?case by simp
next
  case (Cons kv e)
  have "set (fold (\<lambda>kv acc. AList.update (fst kv) (snd kv) acc) e (AList.update (fst kv) (snd kv) d))
        \<subseteq> set (AList.update (fst kv) (snd kv) d) \<union> set e"
    by (rule Cons.IH)
  also have "\<dots> \<subseteq> insert kv (set d) \<union> set e"
    using set_AList_update [of "fst kv" "snd kv" d] by auto
  finally show ?case by auto
qed

lemma dict_update_lookup_own:
  "distinct (map fst e) \<Longrightarrow> k \<in> fst ` set e \<Longrightarrow> map_of (dict_update d e) k = map_of e k"
  unfolding dict_update_def
proof (induction e arbitrary: d)
  case Nil
  then show ?case by simp
next
  case (Cons kv e)
  show ?case
  proof (cases "k \<in> fst ` set e")
    case True
    with Cons show ?thesis by (auto simp: rev_image_eqI)
  next
    case False
    have "map_of (fold (\<lambda>kv acc. AList.update (fst kv) (snd kv) acc) e d') k = map_of d' k" for d'
      using False by (induction e arbitrary: d') (auto simp: update_conv')
    with Cons.prems False show ?thesis by (auto simp: update_conv')
  qed
qed

section \<open>Inherited columns\<close>

lemma getColumns_unfold:
  "getColumns (PersistentClass self bases) =
     dict_update (fold (\<lambda>cls cols. dict_update cols (getColumns cls)) bases []) (columns self)"
proof -
  have "(\<lambda>cls cols. (case cls of PersistentClass _ _ \<Rightarrow> dict_update cols (getColumns cls)
                                 | PlainClass _ \<Rightarrow> cols))
        = (\<lambda>cls cols. dict_update cols (getColumns cls))"
    by (auto simp: fun_eq_iff dict_update_def split: pclass.splits)
  then show ?thesis by simp
qed

lemma bases_fold_keys:
  "fst ` set (fold (\<lambda>cls cols. dict_update cols (f cls)) bases acc)
     = fst ` set acc \<union> (\<Union>b\<in>set bases. fst ` set (f b))"
  by (induction bases arbitrary: acc) (auto simp: dict_update_keys)

lemma bases_fold_distinct:
  "distinct (map fst acc) \<Longrightarrow>
     distinct (map fst (fold (\<lambda>cls cols. dict_update cols (f cls)) bases acc))"
  by (induction bases arbitrary: acc) (auto simp: dict_update_distinct)

lemma bases_fold_entries:
  "set (fold (\<lambda>cls cols. dict_update cols (f cls)) bases acc)
     \<subseteq> set acc \<union> (\<Union>b\<in>set bases. set (f b))"
proof (induction bases arbitrary: acc)
  case Nil
  then show ?case by simp
next
  case (Cons b bases)
  have "set (fold (\<lambda>cls cols. dict_update cols (f cls)) bases (dict_update acc (f b)))
          \<subseteq> set (dict_update acc (f b)) \<union> (\<Union>b\<in>set bases. set (f b))"
    by (rule Cons.IH)
  with dict_update_entries [of acc "f b"] show ?case by auto
qed

lemma getColumns_keys:
  "fst ` set (getColumns c) = (\<Union>q\<in>set (hierarchy c). fst ` set (columns q))"
proof (induction c)
  case (PlainClass n)
  then show ?case by simp
next
  case (PersistentClass self bases)
  then show ?case
    by (simp only: getColumns_unfold dict_update_keys bases_fold_keys hierarchy.simps) auto
qed

lemma getColumns_distinct: "distinct (map fst (getColumns c))"
  by (cases c) (simp_all only: getColumns_unfold getColumns.simps
      dict_update_distinct bases_fold_distinct list.map distinct.simps)

lemma getColumns_entries:
  "set (getColumns c) \<subseteq> (\<Union>q\<in>set (hierarchy c). set (columns q))"
proof (induction c)
  case (PlainClass n)
  then show ?case by simp
next
  case (PersistentClass self bases)
  have "set (getColumns (PersistentClass self bases))
        \<subseteq> (\<Union>b\<in>set bases. set (getColumns b)) \<union> set (columns self)"
    unfolding getColumns_unfold
    using dict_update_entries [of "fold (\<lambda>cls cols. dict_update cols (getColumns cls)) bases []" "columns self"]
      bases_fold_entries [of getColumns bases "[]"]
    by auto
  with PersistentClass.IH show ?case by fastforce
qed

lemma getColumns_own:
  "distinct (map fst (columns self)) \<Longrightarrow> a \<in> fst ` set (columns self) \<Longrightarrow>
     map_of (getColumns (PersistentClass self bases)) a = map_of (columns self) a"
  by (simp only: getColumns_unfold dict_update_lookup_own)

text \<open>
  C2. For every class, \<open>getColumns\<close> returns the union of the column descriptors declared
  by the class and all its transitive Persistence bases, keyed by attribute name: its keys
  are exactly the attribute names declared in the hierarchy, every entry is a descriptor
  declared under that name by a class of the hierarchy, the class's own descriptor is the
  one returned where the class declares the name, and every attribute name occurs once,
  also when a base is reached along several paths. The own \<open>columns\<close> dictionary has
  distinct keys, as every dictionary has.
\<close>

theorem getColumns_union:
  assumes "distinct (map fst (columns self))"
  shows "fst ` set (getColumns (PersistentClass self bases))
           = (\<Union>q\<in>set (hierarchy (PersistentClass self bases)). fst ` set (columns q))
         \<and> set (getColumns (PersistentClass self bases))
           \<subseteq> (\<Union>q\<in>set (hierarchy (PersistentClass self bases)). set (columns q))
         \<and> (\<forall>a\<in>fst ` set (columns self).
              map_of (getColumns (PersistentClass self bases)) a = map_of (columns self) a)
         \<and> distinct (map fst (getColumns (PersistentClass self bases)))"
  using assms getColumns_keys [of "PersistentClass self bases"]
    getColumns_entries [of "PersistentClass self bases"]
    getColumns_distinct [of "PersistentClass self bases"]
    getColumns_own [of self _ bases]
  by blast

theorem getColumns_union_witness:
  "distinct (map fst (columns Bottom))
   \<and> distinct (map fst (getColumns diamond))
   \<and> map fst (getColumns diamond) = [Some ''name'', Some ''phone'', Some ''salary'', Some ''room'']
   \<and> map_of (getColumns diamond) (Some ''name'') = map_of (columns Bottom) (Some ''name'')
   \<and> map_option col (map_of (getColumns diamond) (Some ''name'')) = Some (Some ''full_name'')"
proof -
  have d: "distinct (map fst (columns Bottom))"
    by (simp add: Bottom_def empty_class_def)
  have k: "Some ''name'' \<in> fst ` set (columns Bottom)"
    by (simp add: Bottom_def empty_class_def)
  note u = getColumns_union [OF d,
      of "[PersistentClass Left [PersistentClass Base [PlainClass ''PersistentObject'']],
           PersistentClass Right [PersistentClass Base [PlainClass ''PersistentObject'']]]"]
  from u have "distinct (map fst (getColumns diamond))"
    unfolding diamond_def by blast
  moreover from u k
  have "map_of (getColumns diamond) (Some ''name'') = map_of (columns Bottom) (Some ''name'')"
    unfolding diamond_def by blast
  moreover
  have "map fst (getColumns diamond) = [Some ''name'', Some ''phone'', Some ''salary'', Some ''room'']"
    by code_simp
  moreover
  have "map_option col (map_of (getColumns diamond) (Some ''name'')) = Some (Some ''full_name'')"
    by code_simp
  ultimately show ?thesis using d by simp
qed

section \<open>Registering a column\<close>

lemma addColumn_fields:
  assumes "fst (addColumn self a c vc l vco va upd) = Inr ()"
  shows "map_option (\<lambda>d. (attr d, col d, vcls d, link d, vcol d, vattr d))
           (map_of (columns (snd (addColumn self a c vc l vco va upd))) a)
         = Some (a, (if c = None then a else c), vc, l, vco, va)"
proof -
  from assms have ok: "\<not> py_not a" "\<not> dict_has (columns self) a"
    by (simp_all add: addColumn_def Let_def split: if_splits)
  then show ?thesis
    by (simp add: addColumn_def Let_def Column_init_def update_conv')
qed

lemma addColumn_update_field:
  assumes "fst (addColumn self a c vc l vco va upd) = Inr ()"
  shows "map_option update (map_of (columns (snd (addColumn self a c vc l vco va upd))) a)
         = Some True"
proof -
  from assms have ok: "\<not> py_not a" "\<not> dict_has (columns self) a"
    by (simp_all add: addColumn_def Let_def split: if_splits)
  then show ?thesis
    by (simp add: addColumn_def Let_def Column_init_def update_conv')
qed

lemma addColumn_appends:
  assumes "fst (addColumn self a c vc l vco va upd) = Inr ()"
  shows "map fst (columns (snd (addColumn self a c vc l vco va upd)))
         = map fst (columns self) @ [a]"
proof -
  from assms have ok: "\<not> py_not a" "\<not> dict_has (columns self) a"
    by (simp_all add: addColumn_def Let_def split: if_splits)
  have "map_of al k = None \<Longrightarrow> map fst (AList.update k v al) = map fst al @ [k]"
    for al :: "(pyname \<times> Column) list" and k v
    by (induction al) (auto split: if_splits)
  with ok show ?thesis
    by (simp add: addColumn_def Let_def Column_init_def dict_has_def)
qed

text \<open>
  C6. The claim: the descriptor that a successful \<open>addColumn\<close> registers under
  \<open>columns[attr]\<close> carries the passed field values, its \<open>update\<close> field being the
  \<open>update\<close> argument. The code stores the argument in the class instead: the call
  \<^verbatim>\<open>Order.addColumn('items', vcls = OrderItem, vcol = 'order_fkey', vattr = 'order',
  update = False)\<close> succeeds, the registered descriptor's \<open>update\<close> is \<open>True\<close>, and the
  class has got an attribute \<open>update\<close> that is \<open>False\<close>.
\<close>

theorem addColumn_update_argument_lost:
  "fst (addColumn (empty_class ''order'') (Some ''items'') None (Some ''OrderItem'') None
          (Some ''order_fkey'') (Some ''order'') False) = Inr ()
   \<and> map_option update
        (map_of (columns (snd (addColumn (empty_class ''order'') (Some ''items'') None
           (Some ''OrderItem'') None (Some ''order_fkey'') (Some ''order'') False)))
           (Some ''items'')) = Some True
   \<and> cls_update (snd (addColumn (empty_class ''order'') (Some ''items'') None
           (Some ''OrderItem'') None (Some ''order_fkey'') (Some ''order'') False)) = Some False"
  by code_simp

lemma addColumn_defaults:
  "defaults (snd (addColumn self a c vc l vco va upd))
     = (if vc \<noteq> None \<and> l = None \<and> vco = None \<and> c \<noteq> None \<and> a \<noteq> c
        then AList.update c PNone (AList.update a PNone (defaults self))
        else AList.update a PNone (defaults self))"
  by (cases c) (simp_all add: addColumn_def Let_def Column_init_def is_one_to_one_def)

text \<open>
  C10. Whenever \<open>addColumn\<close> raises (the attribute name is empty, or the attribute is
  already defined on the class), the \<open>columns\<close> dictionary of the class is as it was
  before the call, and the \<open>defaults\<close> dictionary has been changed by the failed call:
  \<open>defaults[attr]\<close> is \<open>None\<close>, and for a one-to-one descriptor whose \<open>col\<close> is given and
  differs from \<open>attr\<close>, \<open>defaults[col]\<close> is \<open>None\<close> as well.
\<close>

theorem addColumn_failure_state:
  assumes "fst (addColumn self a c vc l vco va upd) = Inl e"
  shows "(e = NameError \<and> py_not a \<or> e = ColumnMappingError \<and> dict_has (columns self) a)
         \<and> columns (snd (addColumn self a c vc l vco va upd)) = columns self
         \<and> defaults (snd (addColumn self a c vc l vco va upd))
             = (if vc \<noteq> None \<and> l = None \<and> vco = None \<and> c \<noteq> None \<and> a \<noteq> c
                then AList.update c PNone (AList.update a PNone (defaults self))
                else AList.update a PNone (defaults self))
         \<and> map_of (defaults (snd (addColumn self a c vc l vco va upd))) a = Some PNone
         \<and> (vc \<noteq> None \<and> l = None \<and> vco = None \<and> c \<noteq> None \<and> a \<noteq> c
              \<longrightarrow> map_of (defaults (snd (addColumn self a c vc l vco va upd))) c = Some PNone)"
proof -
  have cause: "e = NameError \<and> py_not a \<or> e = ColumnMappingError \<and> dict_has (columns self) a"
    using assms by (simp add: addColumn_def Let_def split: if_splits)
  have cols: "columns (snd (addColumn self a c vc l vco va upd)) = columns self"
    using assms by (simp add: addColumn_def Let_def split: if_splits)
  note defs = addColumn_defaults [of self a c vc l vco va upd]
  have at_a: "map_of (defaults (snd (addColumn self a c vc l vco va upd))) a = Some PNone"
    unfolding defs by (simp add: update_conv')
  have at_c: "vc \<noteq> None \<and> l = None \<and> vco = None \<and> c \<noteq> None \<and> a \<noteq> c
              \<longrightarrow> map_of (defaults (snd (addColumn self a c vc l vco va upd))) c = Some PNone"
    unfolding defs by (simp add: update_conv')
  from cause cols defs at_a at_c show ?thesis by blast
qed

theorem addColumn_failure_state_witness:
  "fst (addColumn Order (Some ''no'') (Some ''order_no'') (Some ''Customer'') None None None True)
     = Inl ColumnMappingError
   \<and> columns (snd (addColumn Order (Some ''no'') (Some ''order_no'') (Some ''Customer'')
        None None None True)) = columns Order
   \<and> map_of (defaults (snd (addColumn Order (Some ''no'') (Some ''order_no'') (Some ''Customer'')
        None None None True))) (Some ''order_no'') = Some PNone
   \<and> map_of (defaults Order) (Some ''order_no'') = None
   \<and> fst (addColumn Order (Some []) None None None None None True) = Inl NameError
   \<and> columns (snd (addColumn Order (Some []) None None None None None True)) = columns Order
   \<and> map_of (defaults (snd (addColumn Order (Some []) None None None None None True))) (Some [])
       = Some PNone"
proof -
  have h1: "fst (addColumn Order (Some ''no'') (Some ''order_no'') (Some ''Customer'')
      None None None True) = Inl ColumnMappingError"
    by code_simp
  have h2: "fst (addColumn Order (Some []) None None None None None True) = Inl NameError"
    by code_simp
  have d: "map_of (defaults Order) (Some ''order_no'') = None"
    by code_simp
  from addColumn_failure_state [OF h1] addColumn_failure_state [OF h2] h1 h2 d
  show ?thesis by (simp add: update_conv')
qed

section \<open>Query compilation\<close>


lemma dict_values_length: "length (dict_values pos d) = length d"
  by (simp add: dict_values_def)

lemma dict_values_stored_order: "dict_values (\<lambda>d k. n) d = map snd d"
  by (simp add: dict_values_def sort_key_const)


lemma Convertor_init_fields:
  assumes "Convertor_init pos cls = Inr cv"
  shows "cv_columns cv
           = map col (filter (\<lambda>c. association c = None) (dict_values pos (columns cls)))
             @ map col (filter is_one_to_one (dict_values pos (columns cls)))"
    and "oto_ascs cv = filter is_one_to_one (dict_values pos (columns cls))"
    and "mtm_ascs cv = filter is_many_to_many (dict_values pos (columns cls))"
    and "q_getObjects cv = select_query (cv_columns cv) (relation cls)"
    and "q_add cv = insert_query (cv_columns cv) (relation cls)"
    and "q_update cv = update_query (cv_columns cv) (relation cls)"
    and "q_delete cv = delete_query (relation cls)"
    and "q_getKey cv = getKey_query (sequencer cls)"
  using assms
  by (auto simp: Convertor_init_def Let_def split: sum.splits)



lemma Department_cv: "Convertor_init hash_pos Department = Inr Department_cv"
  by code_simp







section \<open>Operations without a connection\<close>

text \<open>
  C9, as claimed: every query operation of the motor called before \<open>connectDB\<close> fails
  with \<open>ConnectionError\<close>. The key allocation on a fresh motor fails with
  \<open>AttributeError\<close>, and the call of the row query does not fail: it returns a generator.
\<close>

theorem no_ConnectionError_counterexample:
  "fst (Motor_getKey (Motor_init (log_db [])) (getKey_query ''order_seq'')) = Inl AttributeError
   \<and> fst (Motor_getKey (Motor_init (log_db [])) (getKey_query ''order_seq''))
       \<noteq> Inl ConnectionError
   \<and> Motor_getData (Motor_init (log_db [])) (select_query [Some ''no''] ''order'')
        [Some ''__key__'', Some ''no'']
       = GenFresh (select_query [Some ''no''] ''order'')"
  by (simp add: Motor_getKey_def Motor_getData_def cursor_execute_def Motor_init_def)

text \<open>
  C9, amended. On a motor that has not been connected, insert, update, delete, batch
  execution and key allocation fail with \<open>AttributeError\<close> and leave the motor as it
  was; the row query returns a generator, and the request for its first row fails with
  \<open>AttributeError\<close>.
\<close>

theorem queries_before_connect:
  "Motor_add (Motor_init dbm) query data = (Inl AttributeError, Motor_init dbm)
   \<and> Motor_update (Motor_init dbm) query vals key = (Inl AttributeError, Motor_init dbm)
   \<and> Motor_delete (Motor_init dbm) query key = (Inl AttributeError, Motor_init dbm)
   \<and> Motor_executeMany (Motor_init dbm) query pairs = (Inl AttributeError, Motor_init dbm)
   \<and> Motor_getKey (Motor_init dbm) query = (Inl AttributeError, Motor_init dbm)
   \<and> Motor_getData (Motor_init dbm) query cols = GenFresh query
   \<and> Motor_getData_next (Motor_init dbm) (Motor_getData (Motor_init dbm) query cols)
       = (Inl AttributeError, GenDone, Motor_init dbm)"
  by (simp add: Motor_add_def Motor_update_def Motor_delete_def Motor_executeMany_def
      Motor_getKey_def Motor_getData_def Motor_getData_next_def cursor_execute_def Motor_init_def)

theorem queries_before_connect_witness:
  "Motor_getKey (Motor_init (log_db [])) (getKey_query ''order_seq'')
     = (Inl AttributeError, Motor_init (log_db []))
   \<and> Motor_add (Motor_init (log_db [])) (insert_query [Some ''no''] ''order'')
        [(Some ''no'', PInt 5)]
     = (Inl AttributeError, Motor_init (log_db []))"
  using queries_before_connect [of "log_db []" "getKey_query ''order_seq''"]
    queries_before_connect [of "log_db []" "insert_query [Some ''no''] ''order''"
      "[(Some ''no'', PInt 5)]"]
  by simp

section \<open>Extracting the row of an object\<close>

lemma Order_cv: "Convertor_init hash_pos Order = Inr Order_cv"
  by code_simp

lemma Invoice_cv: "Convertor_init hash_pos Invoice = Inr Invoice_cv"
  by code_simp

lemma value_key_differs: "value_key v = Inr k \<Longrightarrow> k \<noteq> v"
proof (cases v)
  case (PObj d)
  assume vk: "value_key v = Inr k"
  show ?thesis
  proof (cases "map_of d (Some ''__key__'')")
    case None
    with vk PObj show ?thesis by (simp add: value_key_def obj_key_def)
  next
    case (Some k')
    with vk PObj have "k = k'" by (simp add: value_key_def obj_key_def)
    with Some have "(Some ''__key__'', k) \<in> set d" by (simp add: map_of_SomeD)
    then have "size k < size (PObj d)"
      by (induction d) auto
    with PObj show ?thesis by auto
  qed
qed (simp_all add: value_key_def)

lemma getData_loop_other:
  "getData_loop cattr cs obj data = Inr data' \<Longrightarrow> n \<notin> col ` set cs \<Longrightarrow> map_of data' n = map_of data n"
  by (induction cattr cs obj data rule: getData_loop.induct)
     (auto simp: update_conv' split: sum.splits if_splits)

lemma getData_loop_oto:
  "getData_loop cattr cs obj data = Inr data' \<Longrightarrow> distinct (map col cs) \<Longrightarrow> c \<in> set cs \<Longrightarrow>
     \<exists>v. py_getattr cattr obj (attr c) = Inr v
         \<and> (v = PNone \<longrightarrow> map_of data' (col c) = Some PNone)
         \<and> (v \<noteq> PNone \<longrightarrow> (\<exists>k. value_key v = Inr k \<and> map_of data' (col c) = Some k))"
proof (induction cattr cs obj data rule: getData_loop.induct)
  case (1 cattr obj data)
  then show ?case by simp
next
  case (2 cattr c' cs obj data)
  from "2.prems"(1) obtain v where v: "py_getattr cattr obj (attr c') = Inr v"
    by (auto split: sum.splits)
  show ?case
  proof (cases "v = PNone")
    case True
    with "2.prems" v have loop: "getData_loop cattr cs obj (AList.update (col c') PNone data) = Inr data'"
      by simp
    show ?thesis
    proof (cases "c = c'")
      case True
      with "2.prems"(2) have "col c \<notin> col ` set cs" by auto
      from getData_loop_other [OF loop this] True v \<open>v = PNone\<close> show ?thesis
        by (auto simp: update_conv')
    next
      case False
      with "2.prems" have "c \<in> set cs" "distinct (map col cs)" by auto
      from "2.IH"(1) [OF v \<open>v = PNone\<close> loop this(2) this(1)] show ?thesis .
    qed
  next
    case False
    with "2.prems"(1) v obtain k where k: "value_key v = Inr k"
      and loop: "getData_loop cattr cs obj (AList.update (col c') k data) = Inr data'"
      by (auto split: sum.splits)
    show ?thesis
    proof (cases "c = c'")
      case True
      with "2.prems"(2) have "col c \<notin> col ` set cs" by auto
      from getData_loop_other [OF loop this] True v False k show ?thesis
        by (auto simp: update_conv')
    next
      case cc: False
      with "2.prems" have "c \<in> set cs" "distinct (map col cs)" by auto
      from "2.IH"(2) [OF v False k loop this(2) this(1)] show ?thesis .
    qed
  qed
qed

lemma getData_one_to_one:
  assumes "Convertor_init pos cls = Inr cv"
      and "getData cattr cv obj = Inr data"
      and "distinct (map col (filter is_one_to_one (dict_values pos (columns cls))))"
      and "c \<in> set (filter is_one_to_one (dict_values pos (columns cls)))"
  shows "\<exists>v. py_getattr cattr obj (attr c) = Inr v
           \<and> (v = PNone \<longrightarrow> map_of data (col c) = Some PNone)
           \<and> (v \<noteq> PNone \<longrightarrow>
                (\<exists>k. value_key v = Inr k \<and> map_of data (col c) = Some k \<and> k \<noteq> v))"
proof -
  let ?otos = "filter is_one_to_one (dict_values pos (columns cls))"
  from assms(1) have "oto_ascs cv = ?otos"
    by (rule Convertor_init_fields(2))
  with assms(2) have loop: "getData_loop cattr ?otos obj obj = Inr data"
    by (simp add: getData_def)
  from getData_loop_oto [OF loop assms(3) assms(4)] value_key_differs show ?thesis
    by blast
qed

lemma getData_department:
  "getData object_attrs Department_cv department_obj
     = Inr (department_obj @ [(Some ''boss_fkey'', PInt 7)])"
  by code_simp

lemma py_getattr_class_attribute:
  "py_getattr object_attrs department_obj (Some ''__doc__'') = Inr PNone
   \<and> py_getattr object_attrs department_obj (Some ''salary'') = Inl AttributeError"
  by code_simp

text \<open>
  C4. The claim: the mapping that \<open>getData\<close> returns is keyed by column name and holds,
  for every plain column, the instance's attribute value, and for every one-to-one
  column the referenced object's primary key, or \<open>None\<close>. For one-to-one columns the
  code does so (\<open>getData_one_to_one\<close>): it reads the attribute \<open>attr\<close> and stores under
  \<open>col\<close>. For plain columns it only copies the instance dictionary, which is keyed by
  attribute name: after \<^verbatim>\<open>Invoice.addColumn('number', 'no')\<close>, for an invoice whose
  \<open>number\<close> is 5, the mapping holds 5 under \<open>number\<close> and nothing under the column
  \<open>no\<close>. The convertor's own \<open>update\<close>, which reads the mapping by column name, then
  raises \<^verbatim>\<open>KeyError\<close>, and \<open>add\<close> executes an insert whose placeholder \<^verbatim>\<open>%(no)s\<close> has no
  entry in the row passed with it.
\<close>

theorem getData_plain_column_missing:
  "Convertor_init hash_pos Invoice = Inr Invoice_cv
   \<and> map (\<lambda>c. (attr c, col c, vcls c)) (map snd (columns Invoice))
       = [(Some ''number'', Some ''no'', None)]
   \<and> cv_columns Invoice_cv = [Some ''no'']
   \<and> py_getattr object_attrs invoice_obj (Some ''number'') = Inr (PInt 5)
   \<and> getData object_attrs Invoice_cv invoice_obj = Inr [(Some ''number'', PInt 5)]
   \<and> dict_get [(Some ''number'', PInt 5)] (Some ''no'') = Inl KeyError
   \<and> fst (update_obj object_attrs Invoice_cv (connected (log_db [])) invoice_obj) = Inl KeyError
   \<and> db_conn (snd (snd (add object_attrs Invoice_cv (connected (log_db [])) invoice_obj)))
       = Some [(getKey_query ''invoice_seq'', NoParams),
               (''insert into '' @ [CHR 0x22] @ ''invoice'' @ [CHR 0x22] @ '' (__key__, ''
                  @ [CHR 0x22] @ ''no'' @ [CHR 0x22] @ '') values (%(__key__)s, %(no)s)'',
                Named [(Some ''number'', PInt 5), (Some ''__key__'', PInt 1)])]"
  by code_simp

section \<open>Adding and updating an object\<close>

lemma Motor_getKey_connection:
  "db_conn m = Some db \<Longrightarrow>
     snd (Motor_getKey m query)
       = m\<lparr>db_conn := Some (snd (db_execute (db_module m) db query NoParams))\<rparr>"
  by (simp add: Motor_getKey_def cursor_execute_def split: prod.splits sum.splits list.splits)

text \<open>
  C3. When the row of \<open>obj\<close> has been extracted, \<open>add\<close> allocates a key with the
  sequencer query, inserts the row together with the key, and assigns the key to \<open>obj\<close>.
  If the key allocation fails, \<open>add\<close> fails with that error, \<open>obj\<close> is unchanged and
  nothing was executed but the sequencer query (the connection is as that statement
  left it); if the insert fails after a key was allocated, \<open>add\<close> fails with that error
  and \<open>obj\<close> is unchanged, so the key is not assigned.
\<close>

theorem add_outcomes:
  assumes "getData cattr cv obj = Inr data"
  shows "(\<forall>e m1. Motor_getKey m (q_getKey cv) = (Inl e, m1) \<longrightarrow>
            add cattr cv m obj = (Inl e, obj, m1)
            \<and> (\<forall>db. db_conn m = Some db \<longrightarrow>
                  m1 = m\<lparr>db_conn :=
                          Some (snd (db_execute (db_module m) db (q_getKey cv) NoParams))\<rparr>))
         \<and> (\<forall>key m1 e m2.
              Motor_getKey m (q_getKey cv) = (Inr key, m1)
              \<and> Motor_add m1 (q_add cv) (AList.update (Some ''__key__'') key data) = (Inl e, m2)
              \<longrightarrow> add cattr cv m obj = (Inl e, obj, m2))
         \<and> (\<forall>key m1 m2.
              Motor_getKey m (q_getKey cv) = (Inr key, m1)
              \<and> Motor_add m1 (q_add cv) (AList.update (Some ''__key__'') key data) = (Inr (), m2)
              \<longrightarrow> add cattr cv m obj = (Inr (), AList.update (Some ''__key__'') key obj, m2)
                  \<and> obj_key (AList.update (Some ''__key__'') key obj) = key)"
proof -
  have a: "add cattr cv m obj = (Inl e, obj, m1)
           \<and> (\<forall>db. db_conn m = Some db \<longrightarrow>
                  m1 = m\<lparr>db_conn :=
                          Some (snd (db_execute (db_module m) db (q_getKey cv) NoParams))\<rparr>)"
    if "Motor_getKey m (q_getKey cv) = (Inl e, m1)" for e m1
    using that assms Motor_getKey_connection [of m _ "q_getKey cv"]
    by (auto simp: add_def)
  have b: "add cattr cv m obj = (Inl e, obj, m2)"
    if "Motor_getKey m (q_getKey cv) = (Inr key, m1)"
      "Motor_add m1 (q_add cv) (AList.update (Some ''__key__'') key data) = (Inl e, m2)"
    for key m1 e m2
    using that assms by (simp add: add_def)
  have c: "add cattr cv m obj = (Inr (), AList.update (Some ''__key__'') key obj, m2)
           \<and> obj_key (AList.update (Some ''__key__'') key obj) = key"
    if "Motor_getKey m (q_getKey cv) = (Inr key, m1)"
      "Motor_add m1 (q_add cv) (AList.update (Some ''__key__'') key data) = (Inr (), m2)"
    for key m1 m2
    using that assms by (simp add: add_def obj_key_def update_conv')
  from a b c show ?thesis by blast
qed

theorem add_outcomes_witness:
  "getData object_attrs Order_cv order_obj = Inr order_obj
   \<and> obj_key order_obj = PNone
   \<and> fst (add object_attrs Order_cv (connected (log_db [''select nextval''])) order_obj)
       = Inl (DriverError (getKey_query ''order_seq''))
   \<and> fst (snd (add object_attrs Order_cv (connected (log_db [''select nextval''])) order_obj)) = order_obj
   \<and> db_conn (snd (snd (add object_attrs Order_cv (connected (log_db [''select nextval''])) order_obj)))
       = Some [(getKey_query ''order_seq'', NoParams)]
   \<and> fst (add object_attrs Order_cv (connected (log_db [''insert''])) order_obj)
       = Inl (DriverError (insert_query [Some ''finished'', Some ''no''] ''order''))
   \<and> fst (snd (add object_attrs Order_cv (connected (log_db [''insert''])) order_obj)) = order_obj
   \<and> fst (add object_attrs Order_cv (connected (log_db [])) order_obj) = Inr ()
   \<and> obj_key (fst (snd (add object_attrs Order_cv (connected (log_db [])) order_obj))) = PInt 1
   \<and> db_conn (snd (snd (add object_attrs Order_cv (connected (log_db [])) order_obj)))
       = Some [(getKey_query ''order_seq'', NoParams),
               (insert_query [Some ''finished'', Some ''no''] ''order'',
                Named (order_obj @ [(Some ''__key__'', PInt 1)]))]"
proof -
  let ?m1 = "connected (log_db [''select nextval''])"
  let ?m2 = "connected (log_db [''insert''])"
  let ?m3 = "connected (log_db [])"
  have g: "getData object_attrs Order_cv order_obj = Inr order_obj"
    by code_simp
  have n: "obj_key order_obj = PNone"
    by code_simp
  \<comment> \<open>the key allocation fails\<close>
  have "fst (Motor_getKey ?m1 (q_getKey Order_cv)) = Inl (DriverError (getKey_query ''order_seq''))"
    by code_simp
  then have k1: "Motor_getKey ?m1 (q_getKey Order_cv)
      = (Inl (DriverError (getKey_query ''order_seq'')), snd (Motor_getKey ?m1 (q_getKey Order_cv)))"
    by (metis prod.collapse)
  from add_outcomes [OF g, of ?m1] k1
  have a1: "add object_attrs Order_cv ?m1 order_obj
      = (Inl (DriverError (getKey_query ''order_seq'')), order_obj,
         snd (Motor_getKey ?m1 (q_getKey Order_cv)))"
    by blast
  have l1: "db_conn (snd (Motor_getKey ?m1 (q_getKey Order_cv)))
      = Some [(getKey_query ''order_seq'', NoParams)]"
    by code_simp
  \<comment> \<open>the insert fails\<close>
  have "fst (Motor_getKey ?m2 (q_getKey Order_cv)) = Inr (PInt 1)"
    by code_simp
  then have k2: "Motor_getKey ?m2 (q_getKey Order_cv)
      = (Inr (PInt 1), snd (Motor_getKey ?m2 (q_getKey Order_cv)))"
    by (metis prod.collapse)
  let ?m2' = "snd (Motor_getKey ?m2 (q_getKey Order_cv))"
  have "fst (Motor_add ?m2' (q_add Order_cv) (AList.update (Some ''__key__'') (PInt 1) order_obj))
      = Inl (DriverError (insert_query [Some ''finished'', Some ''no''] ''order''))"
    by code_simp
  then have i2: "Motor_add ?m2' (q_add Order_cv) (AList.update (Some ''__key__'') (PInt 1) order_obj)
      = (Inl (DriverError (insert_query [Some ''finished'', Some ''no''] ''order'')),
         snd (Motor_add ?m2' (q_add Order_cv) (AList.update (Some ''__key__'') (PInt 1) order_obj)))"
    by (metis prod.collapse)
  from add_outcomes [OF g, of ?m2] k2 i2
  have a2: "add object_attrs Order_cv ?m2 order_obj
      = (Inl (DriverError (insert_query [Some ''finished'', Some ''no''] ''order'')), order_obj,
         snd (Motor_add ?m2' (q_add Order_cv) (AList.update (Some ''__key__'') (PInt 1) order_obj)))"
    by blast
  \<comment> \<open>both succeed\<close>
  have a3: "fst (add object_attrs Order_cv ?m3 order_obj) = Inr ()
      \<and> obj_key (fst (snd (add object_attrs Order_cv ?m3 order_obj))) = PInt 1
      \<and> db_conn (snd (snd (add object_attrs Order_cv ?m3 order_obj)))
       = Some [(getKey_query ''order_seq'', NoParams),
               (insert_query [Some ''finished'', Some ''no''] ''order'',
                Named (order_obj @ [(Some ''__key__'', PInt 1)]))]"
    by code_simp
  from g n a1 l1 a2 a3 show ?thesis by simp
qed

text \<open>
  C7, as claimed: \<open>update\<close> fails whenever the primary key of \<open>obj\<close> is unset. It does
  not check the key: for an order never added, on a connection that accepts the
  statement, the update is executed with \<open>None\<close> as the key and returns normally.
\<close>

theorem update_unset_key_counterexample:
  "obj_key order_obj = PNone
   \<and> Convertor_init hash_pos Order = Inr Order_cv
   \<and> db_conn (connected (log_db [])) = Some []
   \<and> fst (update_obj object_attrs Order_cv (connected (log_db [])) order_obj) = Inr ()
   \<and> db_conn (snd (update_obj object_attrs Order_cv (connected (log_db [])) order_obj))
       = Some [(update_query [Some ''finished'', Some ''no''] ''order'',
                Positional [PBool False, PInt 5, PNone])]"
  by code_simp

text \<open>
  C7, amended. When the row of \<open>obj\<close> has been extracted and holds a value for every
  column, \<open>update\<close> executes the positional update statement with the column values
  followed by the primary key of \<open>obj\<close>, whatever that key is, unset included; the
  outcome is the outcome of that statement, an exception of the driver being the
  exception of \<open>update\<close>.
\<close>

theorem update_obj_statement:
  assumes "getData cattr cv obj = Inr data"
      and "dict_gets data (cv_columns cv) = Inr vals"
      and "db_conn m = Some db"
  shows "update_obj cattr cv m obj =
           (case db_execute (db_module m) db (q_update cv) (Positional (vals @ [obj_key obj])) of
              (Inl e, db') \<Rightarrow> (Inl e, m\<lparr>db_conn := Some db'\<rparr>)
            | (Inr rows, db') \<Rightarrow> (Inr (), m\<lparr>db_conn := Some db'\<rparr>))"
  using assms
  by (simp add: update_obj_def Motor_update_def cursor_execute_def split: prod.splits sum.splits)

theorem update_obj_statement_witness:
  "getData object_attrs Order_cv (order_obj @ [(Some ''__key__'', PInt 3)])
     = Inr (order_obj @ [(Some ''__key__'', PInt 3)])
   \<and> dict_gets (order_obj @ [(Some ''__key__'', PInt 3)]) (cv_columns Order_cv)
     = Inr [PBool False, PInt 5]
   \<and> db_conn (connected (log_db [])) = Some []
   \<and> obj_key (order_obj @ [(Some ''__key__'', PInt 3)]) = PInt 3
   \<and> fst (update_obj object_attrs Order_cv (connected (log_db [])) (order_obj @ [(Some ''__key__'', PInt 3)]))
     = Inr ()
   \<and> db_conn (snd (update_obj object_attrs Order_cv (connected (log_db []))
        (order_obj @ [(Some ''__key__'', PInt 3)])))
     = Some [(q_update Order_cv, Positional [PBool False, PInt 5, PInt 3])]"
proof -
  let ?obj = "order_obj @ [(Some ''__key__'', PInt 3)]"
  have g: "getData object_attrs Order_cv ?obj = Inr ?obj"
    by code_simp
  have v: "dict_gets ?obj (cv_columns Order_cv) = Inr [PBool False, PInt 5]"
    by code_simp
  have c: "db_conn (connected (log_db [])) = Some []"
    by code_simp
  have k: "obj_key ?obj = PInt 3"
    by code_simp
  have x: "db_execute (db_module (connected (log_db []))) [] (q_update Order_cv)
             (Positional [PBool False, PInt 5, PInt 3])
           = (Inr [], [(q_update Order_cv, Positional [PBool False, PInt 5, PInt 3])])"
    by code_simp
  from update_obj_statement [OF g v c] k x
  have "update_obj object_attrs Order_cv (connected (log_db [])) ?obj
        = (Inr (), (connected (log_db []))
             \<lparr>db_conn := Some [(q_update Order_cv, Positional [PBool False, PInt 5, PInt 3])]\<rparr>)"
    by simp
  with g v c k show ?thesis by simp
qed

end
